theory Spec2Isabelle
  imports Main "HOL-Library.Word" "HOL-Library.AList"
begin

section \<open>The ESI client of \<open>esy/client.py\<close>\<close>

text \<open>
  The client wraps the operations of a Swagger description: \<open>ESICallableOperation\<close>
  checks the authorization token and hands the request to \<open>ESIRequestsClient.request\<close>,
  which builds an \<open>ESIPageGenerator\<close>; the generator fetches one page per advance and
  optionally stores pages in a cache supplied by the caller.

  What the code does is modelled here as functions over explicit state. The state that the
  code shares and mutates is the \<open>world\<close>: the list of HTTP calls made so far and the
  content of the caller's cache. Exceptions are values of the type \<open>exn\<close>, and a function
  that may raise returns \<open>exn + 'a\<close> together with the state it leaves behind.
\<close>

subsection \<open>Python values and built-ins\<close>

datatype pyval = PInt int | PStr string

datatype json =
    JNull
  | JBool bool
  | JInt int
  | JFloat string
  | JString string
  | JArray "json list"
  | JObject "(string \<times> json) list"

type_synonym payload = json

type_synonym headers = "(string \<times> string) list"

record response =
  status_code :: nat
  resp_headers :: headers
  resp_text :: string

text \<open>An exception of the HTTP library carries its text (\<open>str(ex)\<close>) and the response.\<close>

record http_error =
  exc_str :: string
  exc_response :: response

text \<open>
  Modelled from the spec: the exception classes of \<open>esy/exceptions.py\<close> (\<open>ESIError\<close>,
  \<open>ESINotFound\<close>, \<open>ESIForbidden\<close>, \<open>ESIAuthorizationError\<close>), each a distinct signal
  type that carries the message it was raised with. The other constructors are the
  exceptions of the HTTP library, of the Swagger library and of Python itself that the code
  can meet; each carries its text.
\<close>

datatype exn =
    ESIError string
  | ESINotFound string
  | ESIForbidden string
  | ESIAuthorizationError string
  | HTTPInternalServerError http_error
  | HTTPBadRequest http_error
  | HTTPNotFound http_error
  | HTTPForbidden http_error
  | HTTPOtherError http_error
  | StopIteration
  | AssertionError
  | ValueError string
  | TypeError string
  | AttributeError string
  | JSONDecodeError string
  | SwaggerMappingError string

text \<open>\<open>str(ex)\<close> for an exception raised inside the not-found handler.\<close>

fun str_exn :: "exn \<Rightarrow> string" where
  "str_exn (ESIError m) = m"
| "str_exn (ESINotFound m) = m"
| "str_exn (ESIForbidden m) = m"
| "str_exn (ESIAuthorizationError m) = m"
| "str_exn (HTTPInternalServerError h) = exc_str h"
| "str_exn (HTTPBadRequest h) = exc_str h"
| "str_exn (HTTPNotFound h) = exc_str h"
| "str_exn (HTTPForbidden h) = exc_str h"
| "str_exn (HTTPOtherError h) = exc_str h"
| "str_exn StopIteration = []"
| "str_exn AssertionError = []"
| "str_exn (ValueError m) = m"
| "str_exn (TypeError m) = m"
| "str_exn (AttributeError m) = m"
| "str_exn (JSONDecodeError m) = m"
| "str_exn (SwaggerMappingError m) = m"

text \<open>
  Python's \<open>int(s)\<close> on a string: surrounding whitespace is dropped, one sign is allowed,
  then decimal digits, where single underscores may separate digits. Anything else raises
  \<open>ValueError\<close>. A character here is a code point below 256; of these, \<open>int\<close> drops
  the space, the control characters 9 to 13, and the code points 0x85 and 0xA0.
\<close>

definition is_space :: "char \<Rightarrow> bool" where
  "is_space c = (c \<in> set [CHR '' '', CHR 0x09, CHR 0x0A, CHR 0x0B, CHR 0x0C, CHR 0x0D,
                          CHR 0x85, CHR 0xA0])"

definition strip :: "string \<Rightarrow> string" where
  "strip s = rev (dropWhile is_space (rev (dropWhile is_space s)))"

definition is_digit :: "char \<Rightarrow> bool" where
  "is_digit c = (48 \<le> (of_char c :: nat) \<and> (of_char c :: nat) \<le> 57)"

definition digit_val :: "char \<Rightarrow> int" where
  "digit_val c = int (of_char c :: nat) - 48"

fun parse_digits :: "int \<Rightarrow> string \<Rightarrow> int option" where
  "parse_digits acc [] = Some acc"
| "parse_digits acc [c] =
     (if is_digit c then Some (10 * acc + digit_val c) else None)"
| "parse_digits acc (c # d # ds) =
     (if is_digit c then parse_digits (10 * acc + digit_val c) (d # ds)
      else if c = CHR ''_'' \<and> is_digit d then parse_digits (10 * acc + digit_val d) ds
      else None)"

definition py_int :: "string \<Rightarrow> exn + int" where
  "py_int s =
     (let bad = Inl (ValueError (''invalid literal for int() with base 10: '' @ [CHR 0x27] @ s @ [CHR 0x27]));
          t = strip s;
          (sign, body) = (case t of
                            c # cs \<Rightarrow> if c = CHR ''-'' then (- 1, cs)
                                      else if c = CHR ''+'' then (1, cs) else (1, t)
                          | [] \<Rightarrow> (1, t))
      in case body of
           [] \<Rightarrow> bad
         | d # ds \<Rightarrow>
             if is_digit d
             then (case parse_digits (digit_val d) ds of
                     None \<Rightarrow> bad
                   | Some v \<Rightarrow> Inr (sign * v))
             else bad)"

text \<open>
  \<open>datetime(year, month, day, hour, minute, second, microsecond, tzinfo)\<close>: the
  constructor raises \<open>ValueError\<close> when a field is out of range.
\<close>

datatype tz = UTC

record datetime =
  dt_year :: int
  dt_month :: int
  dt_day :: int
  dt_hour :: int
  dt_minute :: int
  dt_second :: int
  dt_microsecond :: int
  dt_tzinfo :: tz

definition is_leap :: "int \<Rightarrow> bool" where
  "is_leap y = (y mod 4 = 0 \<and> (y mod 100 \<noteq> 0 \<or> y mod 400 = 0))"

definition days_in_month :: "int \<Rightarrow> int \<Rightarrow> int" where
  "days_in_month y m =
     (if m = 2 then (if is_leap y then 29 else 28)
      else if m \<in> set [4, 6, 9, 11] then 30 else 31)"

definition mk_datetime :: "int \<Rightarrow> int \<Rightarrow> int \<Rightarrow> int \<Rightarrow> int \<Rightarrow> int \<Rightarrow> int \<Rightarrow> tz \<Rightarrow> exn + datetime" where
  "mk_datetime y mo d h mi s us z =
     (if \<not> (1 \<le> y \<and> y \<le> 9999) then Inl (ValueError ''year is out of range'')
      else if \<not> (1 \<le> mo \<and> mo \<le> 12) then Inl (ValueError ''month must be in 1..12'')
      else if \<not> (1 \<le> d \<and> d \<le> days_in_month y mo)
        then Inl (ValueError ''day is out of range for month'')
      else if \<not> (0 \<le> h \<and> h \<le> 23) then Inl (ValueError ''hour must be in 0..23'')
      else if \<not> (0 \<le> mi \<and> mi \<le> 59) then Inl (ValueError ''minute must be in 0..59'')
      else if \<not> (0 \<le> s \<and> s \<le> 59) then Inl (ValueError ''second must be in 0..59'')
      else if \<not> (0 \<le> us \<and> us \<le> 999999)
        then Inl (ValueError ''microsecond must be in 0..999999'')
      else Inr \<lparr>dt_year = y, dt_month = mo, dt_day = d, dt_hour = h, dt_minute = mi,
                dt_second = s, dt_microsecond = us, dt_tzinfo = z\<rparr>)"

subsection \<open>Requests, operations and the cache object\<close>

text \<open>
  A \<open>requests.Request\<close> as the cache key reads it, and the pair of session and request
  that \<open>RequestsFutureAdapter\<close> holds. Dictionaries are association lists in insertion
  order; response headers are keyed by their lower-case names.
\<close>

record request =
  url :: string
  params :: "(string \<times> pyval) list"
  auth :: "string option"
  req_headers :: headers
  req_method :: string

record future_adapter =
  session_headers :: headers
  request :: request

text \<open>
  The cache key is Python's \<open>hash\<close> of a tuple, a machine integer of 64 bits
  (\<open>Py_hash_t\<close>). The hash of a tuple is made of the hashes of its items. The hash of
  an integer is the integer modulo \<open>2^61 - 1\<close> with the sign kept, where \<open>-1\<close> is
  replaced by \<open>-2\<close>. The hash of a string depends on a key that the interpreter
  draws when it starts.
\<close>

type_synonym cache_key = "64 word"

type_synonym key_tuple = "string \<times> string \<times> string \<times> string \<times> string \<times> int"

text \<open>
  The cache is an object of the caller. Its three methods are attributes that may be
  missing or not callable (\<open>None\<close> here); they work on the cache's content, of type
  \<open>'c\<close>, which lives in the world.
\<close>

record 'c cache_obj =
  get_attr :: "('c \<Rightarrow> cache_key \<Rightarrow> (payload \<times> int) option) option"
  set_attr :: "('c \<Rightarrow> cache_key \<Rightarrow> payload \<times> int \<Rightarrow> datetime \<Rightarrow> 'c) option"
  contains_attr :: "('c \<Rightarrow> cache_key \<Rightarrow> bool) option"

record 'c world =
  net_log :: "future_adapter list"
  cache_store :: 'c

text \<open>\<open>ESIRequestsClient\<close>: the user agent and the cache.\<close>

record 'c client =
  user_agent :: string
  client_cache :: "'c cache_obj option"

text \<open>
  An operation of the Swagger description: its security requirements (each a dictionary
  from scheme name to scopes), its declared parameters, and the HTTP client of its
  specification.
\<close>

record 'c operation =
  security_specs :: "(string \<times> string list) list list"
  op_params :: "string list"
  http_client :: "'c client"

text \<open>
  What the code takes from the libraries and from the network, as parameters:
  \<^item> \<open>construct_request\<close> with \<open>separate_params\<close> and \<open>authenticated_request\<close>: the
    Swagger library's way from an operation, the request options and the keyword
    arguments to the HTTP request, which raises when it does not accept the arguments;
  \<^item> \<open>REQUEST_OPTIONS_DEFAULTS\<close>, the library's default request options;
  \<^item> \<open>fresh_session_headers\<close>, the headers of a new \<open>requests.Session()\<close>;
  \<^item> \<open>http_result\<close>: \<open>HttpFuture(...).result()\<close>, that is the network call and the
    library's reading of the answer, given the calls made before: the unmarshalled
    result with the response, or the library's exception for the status;
  \<^item> \<open>str_params\<close>, \<open>str_auth\<close>, \<open>str_headers\<close>: Python's \<open>str\<close> of the request's
    parameters, authentication and headers;
  \<^item> \<open>str_hash\<close>, the hash of a string in this interpreter process, and \<open>tuple_hash\<close>,
    the way the hash of a tuple is made of the hashes of its items;
  \<^item> \<open>parsedate\<close> of \<open>email.utils\<close>, which returns a time tuple or \<open>None\<close>;
  \<^item> \<open>json_loads\<close>, which returns the parsed document or raises, and \<open>str_json\<close>,
    Python's \<open>str\<close> of a parsed value that is not a string.
\<close>

record 'c env =
  construct_request ::
    "'c operation \<Rightarrow> (string \<times> pyval) list \<Rightarrow> (string \<times> pyval) list \<Rightarrow> exn + request"
  REQUEST_OPTIONS_DEFAULTS :: "(string \<times> pyval) list"
  fresh_session_headers :: headers
  http_result :: "future_adapter list \<Rightarrow> future_adapter \<Rightarrow> exn + (payload \<times> response)"
  str_params :: "(string \<times> pyval) list \<Rightarrow> string"
  str_auth :: "string option \<Rightarrow> string"
  str_headers :: "headers \<Rightarrow> string"
  str_hash :: "string \<Rightarrow> cache_key"
  tuple_hash :: "cache_key list \<Rightarrow> cache_key"
  parsedate :: "string \<Rightarrow> int list option"
  json_loads :: "string \<Rightarrow> exn + json"
  str_json :: "json \<Rightarrow> string"

text \<open>The built-in \<open>hash\<close> on an integer and on the tuple of the cache key.\<close>

definition hash_modulus :: int where
  "hash_modulus = 2 ^ 61 - 1"

definition int_hash :: "int \<Rightarrow> cache_key" where
  "int_hash n =
     (let h = (if 0 \<le> n then n mod hash_modulus else - ((- n) mod hash_modulus))
      in word_of_int (if h = - 1 then - 2 else h))"

definition py_hash :: "'c env \<Rightarrow> key_tuple \<Rightarrow> cache_key" where
  "py_hash E = (\<lambda>(u, p, a, h, m, pg).
     tuple_hash E [str_hash E u, str_hash E p, str_hash E a, str_hash E h, str_hash E m,
                   int_hash pg])"

subsection \<open>ESICallableOperation\<close>

record 'c callable_operation =
  co_operation :: "'c operation"
  require_authorization :: bool
  paginated :: bool

definition ESICallableOperation_init :: "'c operation \<Rightarrow> 'c callable_operation" where
  "ESICallableOperation_init oper =
     \<lparr>co_operation = oper,
      require_authorization = list_ex (\<lambda>spec. ''evesso'' \<in> set (map fst spec)) (security_specs oper),
      paginated = (''page'' \<in> set (op_params oper))\<rparr>"

subsection \<open>ESIPageGenerator\<close>

record 'c page_generator =
  requests_future :: future_adapter
  operation :: "'c operation option"
  page :: int
  num_pages :: int
  stop :: bool
  cache :: "'c cache_obj option"

definition ESIPageGenerator_init ::
  "future_adapter \<Rightarrow> 'c operation option \<Rightarrow> 'c cache_obj option \<Rightarrow> exn + 'c page_generator" where
  "ESIPageGenerator_init rf oper c =
     (let g = \<lparr>requests_future = rf, operation = oper, page = 1, num_pages = 1,
               stop = False, cache = c\<rparr>
      in case c of
           None \<Rightarrow> Inr g
         | Some co \<Rightarrow>
             if get_attr co = None then Inl AssertionError
             else if set_attr co = None then Inl AssertionError
             else if contains_attr co = None then Inl AssertionError
             else Inr g)"

text \<open>
  \<open>_get_cache_key\<close>: the hash of the tuple of the URL, the texts of the parameters, the
  authentication, the headers and the method (a string, which \<open>str\<close> leaves as it is),
  and the page.
\<close>

definition key_tuple_of :: "'c env \<Rightarrow> 'c page_generator \<Rightarrow> key_tuple" where
  "key_tuple_of E g =
     (let r = request (requests_future g)
      in (url r, str_params E (params r), str_auth E (auth r),
          str_headers E (req_headers r), req_method r, page g))"

definition get_cache_key :: "'c env \<Rightarrow> 'c page_generator \<Rightarrow> cache_key" where
  "get_cache_key E g = py_hash E (key_tuple_of E g)"

text \<open>\<open>_send\<close>: one network call, recorded in the world.\<close>

definition send ::
  "'c env \<Rightarrow> 'c page_generator \<Rightarrow> 'c world \<Rightarrow> (exn + payload \<times> response) \<times> 'c world" where
  "send E g w =
     (http_result E (net_log w) (requests_future g),
      w\<lparr>net_log := net_log w @ [requests_future g]\<rparr>)"

text \<open>\<open>int(response.headers.get('x-pages', '1'))\<close>\<close>

definition read_num_pages :: "response \<Rightarrow> exn + int" where
  "read_num_pages resp =
     py_int (case map_of (resp_headers resp) ''x-pages'' of None \<Rightarrow> ''1'' | Some v \<Rightarrow> v)"

text \<open>
  \<open>datetime(*parsedate(response.headers.get('expires'))[:7], pytz.UTC)\<close>: without the
  header \<open>parsedate\<close> is given \<open>None\<close> and returns \<open>None\<close>, as it does for a text
  that is no date, and the slice of \<open>None\<close> raises \<open>TypeError\<close>.
\<close>

definition read_expires :: "'c env \<Rightarrow> response \<Rightarrow> exn + datetime" where
  "read_expires E resp =
     (let not_subscriptable = Inl (TypeError ''NoneType object is not subscriptable'')
      in case map_of (resp_headers resp) ''expires'' of
           None \<Rightarrow> not_subscriptable
         | Some v \<Rightarrow>
             (case parsedate E v of
                None \<Rightarrow> not_subscriptable
              | Some t \<Rightarrow>
                  (case take 7 t of
                     [y, mo, d, h, mi, s, us] \<Rightarrow> mk_datetime y mo d h mi s us UTC
                   | _ \<Rightarrow> Inl (TypeError ''an integer is required''))))"

definition result ::
  "'c env \<Rightarrow> 'c page_generator \<Rightarrow> 'c world \<Rightarrow> (exn + payload) \<times> 'c page_generator \<times> 'c world" where
  "result E g w =
     (case cache g of
        Some co \<Rightarrow>
          (let key = get_cache_key E g
           in case contains_attr co of
                None \<Rightarrow> (Inl (TypeError ''argument is not iterable''), g, w)
              | Some contains \<Rightarrow>
                  if contains (cache_store w) key
                  then (case get_attr co of
                          None \<Rightarrow> (Inl (AttributeError ''get''), g, w)
                        | Some cache_get \<Rightarrow>
                            (case cache_get (cache_store w) key of
                               None \<Rightarrow> (Inl (TypeError ''cannot unpack NoneType object''), g, w)
                             | Some (data, n) \<Rightarrow> (Inr data, g\<lparr>num_pages := n\<rparr>, w)))
                  else (case send E g w of
                          (Inl e, w1) \<Rightarrow> (Inl e, g, w1)
                        | (Inr (data, resp), w1) \<Rightarrow>
                            (case read_num_pages resp of
                               Inl e \<Rightarrow> (Inl e, g, w1)
                             | Inr n \<Rightarrow>
                                 (case read_expires E resp of
                                    Inl e \<Rightarrow> (Inl e, g\<lparr>num_pages := n\<rparr>, w1)
                                  | Inr expires \<Rightarrow>
                                      (case set_attr co of
                                         None \<Rightarrow> (Inl (AttributeError ''set''), g\<lparr>num_pages := n\<rparr>, w1)
                                       | Some cache_set \<Rightarrow>
                                           (Inr data, g\<lparr>num_pages := n\<rparr>,
                                            w1\<lparr>cache_store :=
                                                 cache_set (cache_store w1) key (data, n) expires\<rparr>))))))
      | None \<Rightarrow>
          (case send E g w of
             (Inl e, w1) \<Rightarrow> (Inl e, g, w1)
           | (Inr (data, resp), w1) \<Rightarrow>
               (case read_num_pages resp of
                  Inl e \<Rightarrow> (Inl e, g, w1)
                | Inr n \<Rightarrow> (Inr data, g\<lparr>num_pages := n\<rparr>, w1))))"

text \<open>
  The handler of \<open>HTTPNotFound\<close> in \<open>get\<close>. \<open>error_msg.get('error', 'Not found')\<close> needs
  a dictionary; the \<open>ESINotFound\<close> raised inside the \<open>try\<close> is caught by its
  \<open>except Exception\<close>, like every other exception there, and raised again as
  \<open>ESINotFound(str(ex))\<close>.
\<close>

definition py_str :: "'c env \<Rightarrow> json \<Rightarrow> string" where
  "py_str E v = (case v of JString s \<Rightarrow> s | _ \<Rightarrow> str_json E v)"

definition no_get :: "string \<Rightarrow> exn" where
  "no_get tname = AttributeError ([CHR 0x27] @ tname @ [CHR 0x27] @ '' object has no attribute '' @ [CHR 0x27] @ ''get'' @ [CHR 0x27])"

fun get_error :: "json \<Rightarrow> exn + json" where
  "get_error (JObject kvs) =
     Inr (case map_of kvs ''error'' of None \<Rightarrow> JString ''Not found'' | Some v \<Rightarrow> v)"
| "get_error JNull = Inl (no_get ''NoneType'')"
| "get_error (JBool b) = Inl (no_get ''bool'')"
| "get_error (JInt i) = Inl (no_get ''int'')"
| "get_error (JFloat f) = Inl (no_get ''float'')"
| "get_error (JString s) = Inl (no_get ''str'')"
| "get_error (JArray xs) = Inl (no_get ''list'')"

definition not_found :: "'c env \<Rightarrow> http_error \<Rightarrow> exn" where
  "not_found E ex =
     (let raised = (case json_loads E (resp_text (exc_response ex)) of
                      Inl e \<Rightarrow> e
                    | Inr error_msg \<Rightarrow>
                        (case get_error error_msg of
                           Inl e \<Rightarrow> e
                         | Inr v \<Rightarrow> ESINotFound (py_str E v)))
      in ESINotFound (str_exn raised))"

fun wrap_exn :: "'c env \<Rightarrow> exn \<Rightarrow> exn" where
  "wrap_exn E (HTTPInternalServerError ex) = ESIError (exc_str ex)"
| "wrap_exn E (HTTPBadRequest ex) = ESIError (exc_str ex)"
| "wrap_exn E (HTTPNotFound ex) = not_found E ex"
| "wrap_exn E (HTTPForbidden ex) = ESIForbidden ''Access denied''"
| "wrap_exn E e = e"

definition get ::
  "'c env \<Rightarrow> 'c page_generator \<Rightarrow> 'c world \<Rightarrow> (exn + payload) \<times> 'c page_generator \<times> 'c world" where
  "get E g w =
     (case result E g w of
        (Inl e, g1, w1) \<Rightarrow> (Inl (wrap_exn E e), g1, w1)
      | (Inr data, g1, w1) \<Rightarrow> (Inr data, g1, w1))"

text \<open>\<open>__next__\<close>\<close>

definition gen_next ::
  "'c env \<Rightarrow> 'c page_generator \<Rightarrow> 'c world \<Rightarrow> (exn + payload) \<times> 'c page_generator \<times> 'c world" where
  "gen_next E g w =
     (if stop g then (Inl StopIteration, g, w)
      else
        (let rf = requests_future g;
             r = request rf;
             g0 = g\<lparr>requests_future :=
                      rf\<lparr>request := r\<lparr>params := AList.update ''page'' (PInt (page g)) (params r)\<rparr>\<rparr>\<rparr>
         in case result E g0 w of
              (Inl e, g1, w1) \<Rightarrow> (Inl e, g1, w1)
            | (Inr swagger_result, g1, w1) \<Rightarrow>
                (let g2 = g1\<lparr>page := page g1 + 1\<rparr>;
                     g3 = (if page g2 > num_pages g2 then g2\<lparr>stop := True\<rparr> else g2)
                 in (Inr swagger_result, g3, w1))))"


subsection \<open>ESIRequestsClient\<close>

datatype 'c outcome = Generator "'c page_generator" | Value payload

definition client_request ::
  "'c env \<Rightarrow> 'c client \<Rightarrow> request \<Rightarrow> 'c operation option \<Rightarrow> string option \<Rightarrow> 'c world
     \<Rightarrow> (exn + 'c outcome) \<times> 'c world" where
  "client_request E cl request_params oper authorization_token w =
     (let session0 = fresh_session_headers E;
          session1 = (case authorization_token of
                        None \<Rightarrow> session0
                      | Some t \<Rightarrow>
                          if t \<noteq> [] then AList.update ''Authorization'' (''Bearer '' @ t) session0
                          else session0);
          session2 = AList.update ''User-Agent'' (user_agent cl) session1;
          rf = \<lparr>session_headers = session2, request = request_params\<rparr>
      in case ESIPageGenerator_init rf oper (client_cache cl) of
           Inl e \<Rightarrow> (Inl e, w)
         | Inr g \<Rightarrow>
             if (case oper of None \<Rightarrow> False | Some opr \<Rightarrow> ''page'' \<in> set (op_params opr))
             then (Inr (Generator g), w)
             else (case get E g w of
                     (Inl e, g1, w1) \<Rightarrow> (Inl e, w1)
                   | (Inr v, g1, w1) \<Rightarrow> (Inr (Value v), w1)))"

text \<open>
  \<open>ESICallableOperation.__call__\<close>. The deprecation warning, the response callbacks and
  the options that are not part of the request (timeouts) have no part in what follows
  and are left out.

  The keyword argument \<open>_request_options\<close> is any value of the caller's;
  \<open>dict(REQUEST_OPTIONS_DEFAULTS, **value)\<close> raises \<open>TypeError\<close> when it is not a
  dictionary. The request options and the request parameters are built before the token is
  looked at, and what they raise leaves the call at once.
\<close>

datatype kwarg = Plain pyval | Dict "(string \<times> pyval) list"

definition dict_merge :: "('k \<times> 'v) list \<Rightarrow> ('k \<times> 'v) list \<Rightarrow> ('k \<times> 'v) list" where
  "dict_merge d extra = foldl (\<lambda>m (k, v). AList.update k v m) d extra"

definition type_name :: "pyval \<Rightarrow> string" where
  "type_name v = (case v of PInt i \<Rightarrow> ''int'' | PStr t \<Rightarrow> ''str'')"

definition apply_request_options ::
  "(string \<times> pyval) list \<Rightarrow> kwarg option \<Rightarrow> exn + (string \<times> pyval) list" where
  "apply_request_options defaults arg =
     (case arg of
        None \<Rightarrow> Inr (dict_merge defaults [])
      | Some (Dict opts) \<Rightarrow> Inr (dict_merge defaults opts)
      | Some (Plain v) \<Rightarrow>
          Inl (TypeError (''dict() argument after ** must be a mapping, not '' @ type_name v)))"

definition call ::
  "'c env \<Rightarrow> 'c callable_operation \<Rightarrow> string option \<Rightarrow> kwarg option
     \<Rightarrow> (string \<times> pyval) list \<Rightarrow> 'c world \<Rightarrow> (exn + 'c outcome) \<times> 'c world" where
  "call E co token request_options_arg op_kwargs w =
     (case apply_request_options (REQUEST_OPTIONS_DEFAULTS E) request_options_arg of
        Inl e \<Rightarrow> (Inl e, w)
      | Inr request_options \<Rightarrow>
          (case construct_request E (co_operation co) request_options op_kwargs of
             Inl e \<Rightarrow> (Inl e, w)
           | Inr request_params \<Rightarrow>
               (let client = http_client (co_operation co)
                in if require_authorization co \<and> token = None
                   then (Inl (ESIAuthorizationError ''Missing required authorization token''), w)
                   else client_request E client request_params (Some (co_operation co)) token w)))"

text \<open>
  Whether \<open>result\<close> goes to the network: there is no cache, or the key is not in it.
\<close>

definition cache_miss :: "'c env \<Rightarrow> 'c page_generator \<Rightarrow> 'c world \<Rightarrow> bool" where
  "cache_miss E g w =
     (case cache g of
        None \<Rightarrow> True
      | Some co \<Rightarrow>
          (case contains_attr co of
             None \<Rightarrow> False
           | Some contains \<Rightarrow> \<not> contains (cache_store w) (get_cache_key E g)))"

text \<open>The \<open>page\<close> parameter of a call that went out.\<close>

definition page_param :: "future_adapter \<Rightarrow> pyval option" where
  "page_param rf = map_of (params (request rf)) ''page''"


subsection \<open>A concrete environment\<close>

text \<open>
  A dictionary as the cache, and an environment with a server that answers every call
  with a page of three, to run the definitions on.
\<close>

type_synonym dict_store = "(cache_key \<times> (payload \<times> int) \<times> datetime) list"

definition dict_cache :: "dict_store cache_obj" where
  "dict_cache =
     \<lparr>get_attr = Some (\<lambda>c k. map_option fst (map_of c k)),
      set_attr = Some (\<lambda>c k v e. AList.update k (v, e) c),
      contains_attr = Some (\<lambda>c k. map_of c k \<noteq> None)\<rparr>"

definition ok_response :: "string \<Rightarrow> response" where
  "ok_response pages =
     \<lparr>status_code = 200,
      resp_headers = [(''x-pages'', pages), (''expires'', ''Sat, 01 Jan 2022 00:00:00 GMT'')],
      resp_text = []\<rparr>"

definition page_payload :: "future_adapter \<Rightarrow> payload" where
  "page_payload rf = (case page_param rf of Some (PInt p) \<Rightarrow> JArray [JInt p] | _ \<Rightarrow> JArray [])"

definition error_body :: string where
  "error_body = ''{'' @ [CHR 0x22] @ ''error'' @ [CHR 0x22] @ '': '' @ [CHR 0x22] @ ''X not found''
                 @ [CHR 0x22] @ ''}''"

definition E0 :: "'c env" where
  "E0 =
     \<lparr>construct_request = (\<lambda>oper opts kw.
         Inr \<lparr>url = ''https://esi.evetech.net/latest/markets/prices/'', params = kw, auth = None,
              req_headers = [], req_method = ''GET''\<rparr>),
      REQUEST_OPTIONS_DEFAULTS = [],
      fresh_session_headers = [(''User-Agent'', ''python-requests''), (''Accept'', ''*/*'')],
      http_result = (\<lambda>log rf. Inr (page_payload rf, ok_response ''3'')),
      str_params = (\<lambda>ps. concat (map (\<lambda>(k, v). k @ (case v of PInt i \<Rightarrow> ''#'' | PStr t \<Rightarrow> t)) ps)),
      str_auth = (\<lambda>a. case a of None \<Rightarrow> ''None'' | Some t \<Rightarrow> t),
      str_headers = (\<lambda>hs. concat (map (\<lambda>(k, v). k @ v) hs)),
      str_hash = (\<lambda>t. word_of_nat (length t)),
      tuple_hash = foldl (\<lambda>acc lane. 31 * acc + lane) 17,
      parsedate = (\<lambda>s. if s = ''Sat, 01 Jan 2022 00:00:00 GMT''
                        then Some [2022, 1, 1, 0, 0, 0, 0, 1, - 1] else None),
      json_loads = (\<lambda>s. if s = error_body then Inr (JObject [(''error'', JString ''X not found'')])
                         else Inl (JSONDecodeError ''Expecting value: line 1 column 1 (char 0)'')),
      str_json = (\<lambda>v. [])\<rparr>"

definition request0 :: request where
  "request0 =
     \<lparr>url = ''https://esi.evetech.net/latest/markets/prices/'', params = [], auth = None,
      req_headers = [], req_method = ''GET''\<rparr>"

definition future0 :: future_adapter where
  "future0 = \<lparr>session_headers = [(''User-Agent'', ''esy-test'')], request = request0\<rparr>"

definition gen0 :: "'c cache_obj option \<Rightarrow> 'c page_generator" where
  "gen0 c = \<lparr>requests_future = future0, operation = None, page = 1, num_pages = 1,
             stop = False, cache = c\<rparr>"

definition world0 :: "'c \<Rightarrow> 'c world" where
  "world0 c = \<lparr>net_log = [], cache_store = c\<rparr>"

definition response_with :: "headers \<Rightarrow> string \<Rightarrow> response" where
  "response_with hs body = \<lparr>status_code = 200, resp_headers = hs, resp_text = body\<rparr>"

definition raising :: "nat \<Rightarrow> string \<Rightarrow> string \<Rightarrow> http_error" where
  "raising code txt body =
     \<lparr>exc_str = txt, exc_response = \<lparr>status_code = code, resp_headers = [], resp_text = body\<rparr>\<rparr>"

definition secured_operation :: "'c cache_obj option \<Rightarrow> 'c operation" where
  "secured_operation c =
     \<lparr>security_specs = [[(''evesso'', [''esi-wallet.read_character_wallet.v1''])]],
      op_params = [''character_id'', ''token''],
      http_client = \<lparr>user_agent = ''esy-test'', client_cache = c\<rparr>\<rparr>"

text \<open>A cache object without a \<open>set\<close> method.\<close>

definition read_only_cache :: "dict_store cache_obj" where
  "read_only_cache =
     \<lparr>get_attr = Some (\<lambda>c k. map_option fst (map_of c k)),
      set_attr = None,
      contains_attr = Some (\<lambda>c k. map_of c k \<noteq> None)\<rparr>"

text \<open>
  The environment with a server whose every answer raises the given exception, and the one
  whose every answer is a page with the given response headers.
\<close>

definition env_raising :: "exn \<Rightarrow> 'c env" where
  "env_raising e = E0\<lparr>http_result := (\<lambda>log rf. Inl e)\<rparr>"

definition env_headers :: "headers \<Rightarrow> 'c env" where
  "env_headers hs = E0\<lparr>http_result := (\<lambda>log rf. Inr (page_payload rf, response_with hs []))\<rparr>"

text \<open>The generator of the same request to another URL.\<close>

definition with_url :: "'c page_generator \<Rightarrow> string \<Rightarrow> 'c page_generator" where
  "with_url g u =
     g\<lparr>requests_future :=
         (requests_future g)\<lparr>request := (request (requests_future g))\<lparr>url := u\<rparr>\<rparr>\<rparr>"

text \<open>The environment in which the Swagger library does not accept the arguments.\<close>

definition env_rejecting :: "exn \<Rightarrow> 'c env" where
  "env_rejecting e = E0\<lparr>construct_request := (\<lambda>oper opts kw. Inl e)\<rparr>"

section \<open>Properties\<close>

subsection \<open>The authorization check\<close>

text \<open>
  Claim C2, as the code has it. An operation one of whose security requirements names the
  scheme \<open>evesso\<close> requires a token. Calling it without a token never reaches the
  network: the world after the call is the one before it. The request options and the
  request parameters are built first: when building them raises, that exception reaches
  the caller, and when they are built the call raises \<open>ESIAuthorizationError\<close>.
\<close>

theorem C2_missing_token_raises_before_network:
  assumes "spec \<in> set (security_specs oper)" and "(''evesso'', scopes) \<in> set spec"
  shows "snd (call E (ESICallableOperation_init oper) None opts kw w) = w
       \<and> (apply_request_options (REQUEST_OPTIONS_DEFAULTS E) opts = Inl e
            \<longrightarrow> fst (call E (ESICallableOperation_init oper) None opts kw w) = Inl e)
       \<and> (apply_request_options (REQUEST_OPTIONS_DEFAULTS E) opts = Inr ro
            \<and> construct_request E oper ro kw = Inl e
            \<longrightarrow> fst (call E (ESICallableOperation_init oper) None opts kw w) = Inl e)
       \<and> (apply_request_options (REQUEST_OPTIONS_DEFAULTS E) opts = Inr ro
            \<and> construct_request E oper ro kw = Inr rp
            \<longrightarrow> fst (call E (ESICallableOperation_init oper) None opts kw w)
                  = Inl (ESIAuthorizationError ''Missing required authorization token''))"
proof -
  have req: "require_authorization (ESICallableOperation_init oper)"
    using assms by (force simp: ESICallableOperation_init_def list_ex_iff)
  have op: "co_operation (ESICallableOperation_init oper) = oper"
    by (simp add: ESICallableOperation_init_def)
  show ?thesis
    using req by (auto simp: call_def op split: sum.splits)
qed

theorem C2_missing_token_witness:
  "[(''evesso'', [''esi-wallet.read_character_wallet.v1''])]
     \<in> set (security_specs (secured_operation None :: unit operation))
   \<and> (''evesso'', [''esi-wallet.read_character_wallet.v1''])
     \<in> set [(''evesso'', [''esi-wallet.read_character_wallet.v1''])]
   \<and> apply_request_options (REQUEST_OPTIONS_DEFAULTS (E0 :: unit env)) None = Inr []
   \<and> construct_request (E0 :: unit env) (secured_operation None) []
        [(''character_id'', PInt 90000001)]
      = Inr \<lparr>url = ''https://esi.evetech.net/latest/markets/prices/'',
             params = [(''character_id'', PInt 90000001)], auth = None,
             req_headers = [], req_method = ''GET''\<rparr>
   \<and> snd (call (E0 :: unit env) (ESICallableOperation_init (secured_operation None)) None None
        [(''character_id'', PInt 90000001)] (world0 ())) = world0 ()
   \<and> fst (call (E0 :: unit env) (ESICallableOperation_init (secured_operation None)) None None
        [(''character_id'', PInt 90000001)] (world0 ()))
      = Inl (ESIAuthorizationError ''Missing required authorization token'')"
proof -
  have a: "[(''evesso'', [''esi-wallet.read_character_wallet.v1''])]
             \<in> set (security_specs (secured_operation None :: unit operation))"
    by (simp add: secured_operation_def)
  have b: "(''evesso'', [''esi-wallet.read_character_wallet.v1''])
             \<in> set [(''evesso'', [''esi-wallet.read_character_wallet.v1''])]"
    by simp
  have c: "apply_request_options (REQUEST_OPTIONS_DEFAULTS (E0 :: unit env)) None = Inr []"
    by (simp add: apply_request_options_def dict_merge_def E0_def)
  have d: "construct_request (E0 :: unit env) (secured_operation None) []
        [(''character_id'', PInt 90000001)]
      = Inr \<lparr>url = ''https://esi.evetech.net/latest/markets/prices/'',
             params = [(''character_id'', PInt 90000001)], auth = None,
             req_headers = [], req_method = ''GET''\<rparr>"
    by (simp add: E0_def)
  show ?thesis
    using a b c d C2_missing_token_raises_before_network
      [OF a b, of "E0 :: unit env" None "[(''character_id'', PInt 90000001)]" "world0 ()" _ "[]"
        "\<lparr>url = ''https://esi.evetech.net/latest/markets/prices/'',
          params = [(''character_id'', PInt 90000001)], auth = None,
          req_headers = [], req_method = ''GET''\<rparr>"]
    by simp
qed

text \<open>
  Claim C2 as stated, that the call without a token raises the authorization error, fails
  when building the request raises first: for a \<open>_request_options\<close> that is the integer
  5 the call raises the \<open>TypeError\<close> of \<open>dict\<close>, and for arguments that the Swagger
  library does not accept it raises the library's exception.
\<close>

theorem C2_request_built_first_counterexample:
  "call (E0 :: unit env) (ESICallableOperation_init (secured_operation None)) None
     (Some (Plain (PInt 5))) [] (world0 ())
   = (Inl (TypeError ''dict() argument after ** must be a mapping, not int''), world0 ())
   \<and> call (env_rejecting (SwaggerMappingError ''character_id is a required parameter'') :: unit env)
       (ESICallableOperation_init (secured_operation None)) None None [] (world0 ())
   = (Inl (SwaggerMappingError ''character_id is a required parameter''), world0 ())"
  by (simp add: call_def apply_request_options_def type_name_def dict_merge_def E0_def
      env_rejecting_def)

text \<open>What a call of \<open>ESIRequestsClient.request\<close> sends and returns.\<close>

lemma init_missing_method:
  assumes "get_attr co = None \<or> set_attr co = None \<or> contains_attr co = None"
  shows "ESIPageGenerator_init rf oper (Some co) = Inl AssertionError"
  using assms by (auto simp: ESIPageGenerator_init_def)

lemma result_net_log:
  "net_log (snd (snd (result E g w))) = net_log w
   \<or> net_log (snd (snd (result E g w))) = net_log w @ [requests_future g]"
  by (auto simp: result_def send_def Let_def split: option.splits sum.splits prod.splits)

lemma get_net_log:
  "net_log (snd (snd (get E g w))) = net_log w
   \<or> net_log (snd (snd (get E g w))) = net_log w @ [requests_future g]"
  using result_net_log [of E g w]
  by (auto simp: get_def split: sum.splits prod.splits)

lemma init_Inr:
  "ESIPageGenerator_init rf oper c = Inr g \<Longrightarrow>
     g = \<lparr>requests_future = rf, operation = oper, page = 1, num_pages = 1, stop = False, cache = c\<rparr>"
  by (auto simp: ESIPageGenerator_init_def Let_def split: option.splits if_splits)

lemma client_request_sessions:
  assumes "client_request E cl rp oper tok w = (r, w')"
  defines "sess \<equiv> AList.update ''User-Agent'' (user_agent cl)
        (case tok of None \<Rightarrow> fresh_session_headers E
          | Some t \<Rightarrow> if t \<noteq> [] then AList.update ''Authorization'' (''Bearer '' @ t) (fresh_session_headers E)
                      else fresh_session_headers E)"
  shows "(net_log w' = net_log w \<or> net_log w' = net_log w @ [\<lparr>session_headers = sess, request = rp\<rparr>])
       \<and> (\<forall>g. r = Inr (Generator g) \<longrightarrow> requests_future g = \<lparr>session_headers = sess, request = rp\<rparr>)"
proof (cases "ESIPageGenerator_init \<lparr>session_headers = sess, request = rp\<rparr> oper (client_cache cl)")
  case (Inl e)
  then show ?thesis using assms by (auto simp: client_request_def Let_def)
next
  case (Inr g)
  note g = init_Inr [OF Inr]
  have rf: "requests_future g = \<lparr>session_headers = sess, request = rp\<rparr>" by (simp add: g)
  show ?thesis
  proof (cases "case oper of None \<Rightarrow> False | Some opr \<Rightarrow> ''page'' \<in> set (op_params opr)")
    case True
    then show ?thesis using assms Inr rf by (auto simp: client_request_def Let_def)
  next
    case False
    then show ?thesis
      using assms(1) Inr get_net_log [of E g w] rf unfolding sess_def
      by (auto simp: client_request_def Let_def split: prod.splits sum.splits)
  qed
qed

text \<open>
  Claim C9. For an operation that requires authorization, the empty string as token
  passes the check for a missing token, which looks for \<open>None\<close> only: once the request
  is built, the call is the call of the transport with that token. The empty string is
  not truthy, so no \<open>Authorization\<close> header is put on the session: when a new session
  has none, every call that goes out has none, and neither has the generator that is
  returned for a paginated operation.
\<close>

theorem C9_empty_token_passes_check_without_header:
  assumes "require_authorization co"
    and "map_of (fresh_session_headers E) ''Authorization'' = None"
    and "call E co (Some []) opts kw w = (r, w')"
  shows "(\<forall>ro rp. apply_request_options (REQUEST_OPTIONS_DEFAULTS E) opts = Inr ro
              \<and> construct_request E (co_operation co) ro kw = Inr rp
            \<longrightarrow> (r, w') =
                  client_request E (http_client (co_operation co)) rp
                    (Some (co_operation co)) (Some []) w)
       \<and> (\<exists>new. net_log w' = net_log w @ new
              \<and> list_all (\<lambda>rf. map_of (session_headers rf) ''Authorization'' = None) new)
       \<and> (\<forall>g. r = Inr (Generator g) \<longrightarrow>
              map_of (session_headers (requests_future g)) ''Authorization'' = None)"
proof -
  let ?sess = "AList.update ''User-Agent'' (user_agent (http_client (co_operation co)))
                 (fresh_session_headers E)"
  have no_auth: "map_of ?sess ''Authorization'' = None"
    using assms(2) by (simp add: update_conv')
  have first: "\<forall>ro rp. apply_request_options (REQUEST_OPTIONS_DEFAULTS E) opts = Inr ro
              \<and> construct_request E (co_operation co) ro kw = Inr rp
            \<longrightarrow> (r, w') =
                  client_request E (http_client (co_operation co)) rp
                    (Some (co_operation co)) (Some []) w"
    using assms(3) by (auto simp: call_def Let_def)
  have rest: "(\<exists>new. net_log w' = net_log w @ new
              \<and> list_all (\<lambda>rf. map_of (session_headers rf) ''Authorization'' = None) new)
       \<and> (\<forall>g. r = Inr (Generator g) \<longrightarrow>
              map_of (session_headers (requests_future g)) ''Authorization'' = None)"
  proof (cases "apply_request_options (REQUEST_OPTIONS_DEFAULTS E) opts")
    case (Inl e)
    then have "r = Inl e" and "w' = w" using assms(3) by (simp_all add: call_def)
    then show ?thesis by simp
  next
    case ro: (Inr ro)
    show ?thesis
    proof (cases "construct_request E (co_operation co) ro kw")
      case (Inl e)
      then have "r = Inl e" and "w' = w" using assms(3) ro by (simp_all add: call_def)
      then show ?thesis by simp
    next
      case (Inr rp)
      have eq: "client_request E (http_client (co_operation co)) rp (Some (co_operation co))
                  (Some []) w = (r, w')"
        using assms(3) ro Inr by (simp add: call_def Let_def)
      from client_request_sessions [OF eq]
      have log: "net_log w' = net_log w
                 \<or> net_log w' = net_log w @ [\<lparr>session_headers = ?sess, request = rp\<rparr>]"
        and gen: "\<forall>g. r = Inr (Generator g) \<longrightarrow>
                    requests_future g = \<lparr>session_headers = ?sess, request = rp\<rparr>"
        by simp_all
      from log have "\<exists>new. net_log w' = net_log w @ new
                  \<and> list_all (\<lambda>rf. map_of (session_headers rf) ''Authorization'' = None) new"
      proof
        assume "net_log w' = net_log w"
        then have "net_log w' = net_log w @ []
                    \<and> list_all (\<lambda>rf. map_of (session_headers rf) ''Authorization'' = None) []"
          by simp
        then show ?thesis by blast
      next
        assume "net_log w' = net_log w @ [\<lparr>session_headers = ?sess, request = rp\<rparr>]"
        then have "net_log w' = net_log w @ [\<lparr>session_headers = ?sess, request = rp\<rparr>]
                    \<and> list_all (\<lambda>rf. map_of (session_headers rf) ''Authorization'' = None)
                         [\<lparr>session_headers = ?sess, request = rp\<rparr>]"
          using no_auth by simp
        then show ?thesis by blast
      qed
      moreover have "\<forall>g. r = Inr (Generator g) \<longrightarrow>
                  map_of (session_headers (requests_future g)) ''Authorization'' = None"
        using gen no_auth by simp
      ultimately show ?thesis by simp
    qed
  qed
  from first rest show ?thesis by blast
qed

theorem C9_empty_token_witness:
  "require_authorization (ESICallableOperation_init (secured_operation None :: unit operation))
   \<and> map_of (fresh_session_headers (E0 :: unit env)) ''Authorization'' = None
   \<and> call (E0 :: unit env) (ESICallableOperation_init (secured_operation None)) (Some []) None
        [(''character_id'', PInt 90000001)] (world0 ()) =
      (Inr (Value (JArray [])),
       \<lparr>net_log =
          [\<lparr>session_headers = [(''User-Agent'', ''esy-test''), (''Accept'', ''*/*'')],
            request =
              \<lparr>url = ''https://esi.evetech.net/latest/markets/prices/'',
               params = [(''character_id'', PInt 90000001)], auth = None,
               req_headers = [], req_method = ''GET''\<rparr>\<rparr>],
        cache_store = ()\<rparr>)
   \<and> (\<exists>new. [\<lparr>session_headers = [(''User-Agent'', ''esy-test''), (''Accept'', ''*/*'')],
                request =
                  \<lparr>url = ''https://esi.evetech.net/latest/markets/prices/'',
                   params = [(''character_id'', PInt 90000001)], auth = None,
                   req_headers = [], req_method = ''GET''\<rparr>\<rparr>] = net_log (world0 ()) @ new
          \<and> list_all (\<lambda>rf. map_of (session_headers rf) ''Authorization'' = None) new)"
proof -
  have a: "require_authorization (ESICallableOperation_init (secured_operation None :: unit operation))"
    by (simp add: ESICallableOperation_init_def secured_operation_def)
  have b: "map_of (fresh_session_headers (E0 :: unit env)) ''Authorization'' = None"
    by (simp add: E0_def)
  have c: "call (E0 :: unit env) (ESICallableOperation_init (secured_operation None)) (Some []) None
        [(''character_id'', PInt 90000001)] (world0 ()) =
      (Inr (Value (JArray [])),
       \<lparr>net_log =
          [\<lparr>session_headers = [(''User-Agent'', ''esy-test''), (''Accept'', ''*/*'')],
            request =
              \<lparr>url = ''https://esi.evetech.net/latest/markets/prices/'',
               params = [(''character_id'', PInt 90000001)], auth = None,
               req_headers = [], req_method = ''GET''\<rparr>\<rparr>],
        cache_store = ()\<rparr>)"
    by (simp add: call_def apply_request_options_def client_request_def
        ESICallableOperation_init_def secured_operation_def
        E0_def world0_def dict_merge_def ESIPageGenerator_init_def get_def result_def send_def
        read_num_pages_def ok_response_def py_int_def strip_def is_space_def is_digit_def
        digit_val_def page_payload_def page_param_def Let_def)
  show ?thesis
    using a b c C9_empty_token_passes_check_without_header [OF a b c] by simp
qed

subsection \<open>The cache object's methods\<close>

text \<open>
  Claim C10. When the cache lacks a callable \<open>get\<close>, \<open>set\<close> or \<open>__contains__\<close>,
  constructing the page generator fails with \<open>AssertionError\<close>, and so does every
  request of a client that holds this cache, with the world as it was: no network call
  was made.
\<close>

theorem C10_incomplete_cache_fails_assertion:
  assumes "get_attr co = None \<or> set_attr co = None \<or> contains_attr co = None"
    and "client_cache cl = Some co"
  shows "ESIPageGenerator_init rf oper (Some co) = Inl AssertionError
       \<and> client_request E cl request_params oper' authorization_token w = (Inl AssertionError, w)"
  using assms by (simp add: client_request_def Let_def init_missing_method)

theorem C10_incomplete_cache_witness:
  "set_attr read_only_cache = None
   \<and> client_cache \<lparr>user_agent = ''esy-test'', client_cache = Some read_only_cache\<rparr> = Some read_only_cache
   \<and> ESIPageGenerator_init future0 None (Some read_only_cache) = Inl AssertionError
   \<and> client_request E0 \<lparr>user_agent = ''esy-test'', client_cache = Some read_only_cache\<rparr>
        request0 None (Some ''token'') (world0 []) = (Inl AssertionError, world0 [])"
proof -
  have a: "get_attr read_only_cache = None \<or> set_attr read_only_cache = None
           \<or> contains_attr read_only_cache = None"
    by (simp add: read_only_cache_def)
  have b: "client_cache \<lparr>user_agent = ''esy-test'', client_cache = Some read_only_cache\<rparr>
           = Some read_only_cache"
    by simp
  show ?thesis
    using C10_incomplete_cache_fails_assertion [OF a b, of future0 None E0 request0 None "Some ''token''" "world0 []"]
    by (simp add: read_only_cache_def)
qed

subsection \<open>Errors of a page request\<close>

text \<open>
  When \<open>result\<close> goes to the network and the call raises, the exception leaves
  \<open>result\<close> as it is, after the call was recorded; \<open>get\<close> passes it through its
  handlers, \<open>__next__\<close> does not.
\<close>

lemma result_miss_raise:
  assumes "cache_miss E g w" and "http_result E (net_log w) (requests_future g) = Inl e"
  shows "result E g w = (Inl e, g, w\<lparr>net_log := net_log w @ [requests_future g]\<rparr>)"
  using assms
  by (auto simp: result_def cache_miss_def send_def Let_def split: option.splits)

lemma get_miss_raise:
  assumes "cache_miss E g w" and "http_result E (net_log w) (requests_future g) = Inl e"
  shows "get E g w = (Inl (wrap_exn E e), g, w\<lparr>net_log := net_log w @ [requests_future g]\<rparr>)"
  by (simp add: get_def result_miss_raise [OF assms])

lemma gen_next_miss_raise:
  assumes "\<not> stop g" and "cache g = None"
    and "\<And>log rf. http_result E log rf = Inl e"
  shows "fst (gen_next E g w) = Inl e"
  using assms
  by (simp add: gen_next_def Let_def result_def send_def split: prod.splits sum.splits)

lemma get_forbidden:
  assumes "cache_miss E g w"
    and "http_result E (net_log w) (requests_future g) = Inl (HTTPForbidden ex)"
  shows "fst (get E g w) = Inl (ESIForbidden ''Access denied'')"
  by (simp add: get_miss_raise [OF assms])

text \<open>
  Claim C3. The claim is that a 403 answer surfaces as \<open>ESIForbidden('Access denied')\<close>
  on both paths. On the path of \<open>get\<close> it does. When a paginated operation is
  iterated, \<open>__next__\<close> calls \<open>result\<close> and not \<open>get\<close>: the \<open>HTTPForbidden\<close> of the
  HTTP library reaches the caller as it is. Both are evaluated here for a generator
  without cache whose first request is answered with 403.
\<close>

theorem C3_forbidden_not_wrapped_when_iterating:
  "fst (get (env_raising (HTTPForbidden (raising 403 ''403 Forbidden'' [])) :: unit env)
          (gen0 None) (world0 ()))
     = Inl (ESIForbidden ''Access denied'')
   \<and> fst (gen_next (env_raising (HTTPForbidden (raising 403 ''403 Forbidden'' [])) :: unit env)
          (gen0 None) (world0 ()))
     = Inl (HTTPForbidden (raising 403 ''403 Forbidden'' []))"
  by (simp add: get_def gen_next_def result_def send_def env_raising_def gen0_def Let_def)

text \<open>What \<open>get\<close> makes of a 404 answer.\<close>

lemma get_not_found_message:
  assumes "cache_miss E g w"
    and "http_result E (net_log w) (requests_future g) = Inl (HTTPNotFound ex)"
  shows "(json_loads E (resp_text (exc_response ex)) = Inr (JObject kvs)
            \<and> map_of kvs ''error'' = Some (JString m)
          \<longrightarrow> fst (get E g w) = Inl (ESINotFound m))
       \<and> (json_loads E (resp_text (exc_response ex)) = Inl e
          \<longrightarrow> fst (get E g w) = Inl (ESINotFound (str_exn e)))"
  by (simp add: get_miss_raise [OF assms] not_found_def py_str_def)

text \<open>
  Claim C6. The claim is that a 404 answer surfaces as \<open>ESINotFound\<close>, with the text
  under \<open>error\<close> of its body or, for a body that does not parse, with the text of the
  exception. On the path of \<open>get\<close> it does, for both bodies. When a paginated operation
  is iterated, \<open>__next__\<close> calls \<open>result\<close> and not \<open>get\<close>: the \<open>HTTPNotFound\<close> of the
  HTTP library reaches the caller as it is. All three are evaluated here for a generator
  without cache whose first request is answered with 404.
\<close>

theorem C6_not_found_not_wrapped_when_iterating:
  "fst (get (env_raising (HTTPNotFound (raising 404 ''404 Not Found'' error_body)) :: unit env)
          (gen0 None) (world0 ()))
     = Inl (ESINotFound ''X not found'')
   \<and> fst (get (env_raising (HTTPNotFound (raising 404 ''404 Not Found'' ''<html>'')) :: unit env)
          (gen0 None) (world0 ()))
     = Inl (ESINotFound ''Expecting value: line 1 column 1 (char 0)'')
   \<and> fst (gen_next (env_raising (HTTPNotFound (raising 404 ''404 Not Found'' error_body)) :: unit env)
          (gen0 None) (world0 ()))
     = Inl (HTTPNotFound (raising 404 ''404 Not Found'' error_body))"
  by (simp add: get_def gen_next_def result_def send_def env_raising_def gen0_def Let_def
      not_found_def py_str_def E0_def raising_def error_body_def)

subsection \<open>The page count header\<close>

lemma py_int_ValueError: "py_int v = Inl e \<Longrightarrow> \<exists>m. e = ValueError m"
  by (auto simp: py_int_def Let_def split: list.splits if_splits option.splits prod.splits)

lemma result_miss_bad_pages:
  assumes "cache_miss E g w"
    and "http_result E (net_log w) (requests_future g) = Inr (data, resp)"
    and "read_num_pages resp = Inl e"
  shows "result E g w = (Inl e, g, w\<lparr>net_log := net_log w @ [requests_future g]\<rparr>)"
  using assms
  by (auto simp: result_def cache_miss_def send_def Let_def split: option.splits)

lemma result_miss_num_pages:
  assumes "cache_miss E g w"
    and "http_result E (net_log w) (requests_future g) = Inr (data, resp)"
    and "read_num_pages resp = Inr n"
  shows "num_pages (fst (snd (result E g w))) = n"
  using assms
  by (auto simp: result_def cache_miss_def send_def Let_def split: option.splits sum.splits)

text \<open>
  Claim C5, as the code has it. When \<open>result\<close> goes to the network and the call
  succeeds: without an \<open>X-Pages\<close> header the page count is 1; with a header that
  \<open>int\<close> accepts it is that integer; with a header that \<open>int\<close> rejects, \<open>result\<close>
  raises the \<open>ValueError\<close> of \<open>int\<close> and leaves the generator as it was.
\<close>

theorem C5_x_pages_header:
  assumes "cache_miss E g w"
    and "http_result E (net_log w) (requests_future g) = Inr (data, resp)"
  shows "(map_of (resp_headers resp) ''x-pages'' = None
            \<longrightarrow> num_pages (fst (snd (result E g w))) = 1)
       \<and> (map_of (resp_headers resp) ''x-pages'' = Some v \<and> py_int v = Inr n
            \<longrightarrow> num_pages (fst (snd (result E g w))) = n)
       \<and> (map_of (resp_headers resp) ''x-pages'' = Some v \<and> py_int v = Inl e
            \<longrightarrow> (\<exists>m. e = ValueError m)
                \<and> result E g w = (Inl e, g, w\<lparr>net_log := net_log w @ [requests_future g]\<rparr>))"
proof (intro conjI impI)
  assume "map_of (resp_headers resp) ''x-pages'' = None"
  then have "read_num_pages resp = Inr 1"
    by (simp add: read_num_pages_def py_int_def strip_def is_space_def is_digit_def digit_val_def)
  then show "num_pages (fst (snd (result E g w))) = 1"
    by (rule result_miss_num_pages [OF assms])
next
  assume "map_of (resp_headers resp) ''x-pages'' = Some v \<and> py_int v = Inr n"
  then have "read_num_pages resp = Inr n"
    by (simp add: read_num_pages_def)
  then show "num_pages (fst (snd (result E g w))) = n"
    by (rule result_miss_num_pages [OF assms])
next
  assume h: "map_of (resp_headers resp) ''x-pages'' = Some v \<and> py_int v = Inl e"
  then show "\<exists>m. e = ValueError m"
    using py_int_ValueError by blast
  from h have "read_num_pages resp = Inl e"
    by (simp add: read_num_pages_def)
  then show "result E g w = (Inl e, g, w\<lparr>net_log := net_log w @ [requests_future g]\<rparr>)"
    by (rule result_miss_bad_pages [OF assms])
qed

theorem C5_x_pages_witness:
  "cache_miss (env_headers [(''x-pages'', ''abc'')] :: unit env) (gen0 None) (world0 ())
   \<and> num_pages (fst (snd (result (env_headers [] :: unit env) (gen0 None) (world0 ())))) = 1
   \<and> num_pages (fst (snd (result (env_headers [(''x-pages'', ''12'')] :: unit env) (gen0 None) (world0 ())))) = 12
   \<and> result (env_headers [(''x-pages'', ''abc'')] :: unit env) (gen0 None) (world0 ())
      = (Inl (ValueError (''invalid literal for int() with base 10: '' @ [CHR 0x27] @ ''abc'' @ [CHR 0x27])),
         gen0 None, (world0 ())\<lparr>net_log := [future0]\<rparr>)"
proof -
  have a: "\<And>hs. cache_miss (env_headers hs :: unit env) (gen0 None) (world0 ())"
    by (simp add: cache_miss_def gen0_def)
  have b: "\<And>hs. http_result (env_headers hs :: unit env) (net_log (world0 ()))
               (requests_future (gen0 None :: unit page_generator))
             = Inr (page_payload (requests_future (gen0 None :: unit page_generator)), response_with hs [])"
    by (simp add: env_headers_def)
  have p12: "py_int ''12'' = Inr 12"
    by (simp add: py_int_def strip_def is_space_def is_digit_def digit_val_def)
  have pabc: "py_int ''abc''
      = Inl (ValueError (''invalid literal for int() with base 10: '' @ [CHR 0x27] @ ''abc'' @ [CHR 0x27]))"
    by (simp add: py_int_def strip_def is_space_def is_digit_def digit_val_def)
  show ?thesis
    using a [of "[(''x-pages'', ''abc'')]"] p12 pabc
      C5_x_pages_header [OF a b, of "[]"]
      C5_x_pages_header [OF a b, of "[(''x-pages'', ''12'')]" "''12''" 12]
      C5_x_pages_header [OF a b, of "[(''x-pages'', ''abc'')]" "''abc''" _
         "ValueError (''invalid literal for int() with base 10: '' @ [CHR 0x27] @ ''abc'' @ [CHR 0x27])"]
    by (simp add: response_with_def gen0_def world0_def)
qed

text \<open>
  Claim C5 as stated, that an unparseable \<open>X-Pages\<close> value defaults to 1, fails: for
  the value \<open>abc\<close> both \<open>result\<close> and \<open>get\<close> raise \<open>ValueError\<close>.
\<close>

theorem C5_unparseable_x_pages_counterexample:
  "fst (result (env_headers [(''x-pages'', ''abc'')] :: unit env) (gen0 None) (world0 ()))
     = Inl (ValueError (''invalid literal for int() with base 10: '' @ [CHR 0x27] @ ''abc'' @ [CHR 0x27]))
   \<and> fst (get (env_headers [(''x-pages'', ''abc'')] :: unit env) (gen0 None) (world0 ()))
     = Inl (ValueError (''invalid literal for int() with base 10: '' @ [CHR 0x27] @ ''abc'' @ [CHR 0x27]))"
  by (simp add: get_def result_def send_def env_headers_def gen0_def response_with_def
      read_num_pages_def py_int_def strip_def is_space_def is_digit_def Let_def)

subsection \<open>The cache\<close>

text \<open>The three ways of \<open>result\<close> through a cache that has its methods.\<close>

lemma result_cache_miss_stored:
  assumes "cache g = Some co" and "contains_attr co = Some cf" and "set_attr co = Some sf"
    and "\<not> cf (cache_store w) (get_cache_key E g)"
    and "http_result E (net_log w) (requests_future g) = Inr (data, resp)"
    and "read_num_pages resp = Inr n"
    and "read_expires E resp = Inr expires"
  shows "result E g w =
           (Inr data, g\<lparr>num_pages := n\<rparr>,
            w\<lparr>net_log := net_log w @ [requests_future g],
              cache_store := sf (cache_store w) (get_cache_key E g) (data, n) expires\<rparr>)"
  using assms by (simp add: result_def send_def Let_def)

lemma result_cache_miss_expires_fails:
  assumes "cache g = Some co" and "contains_attr co = Some cf"
    and "\<not> cf (cache_store w) (get_cache_key E g)"
    and "http_result E (net_log w) (requests_future g) = Inr (data, resp)"
    and "read_num_pages resp = Inr n"
    and "read_expires E resp = Inl e"
  shows "result E g w =
           (Inl e, g\<lparr>num_pages := n\<rparr>, w\<lparr>net_log := net_log w @ [requests_future g]\<rparr>)"
  using assms by (simp add: result_def send_def Let_def)

lemma result_cache_hit:
  assumes "cache g = Some co" and "contains_attr co = Some cf" and "get_attr co = Some gf"
    and "cf (cache_store w) (get_cache_key E g)"
    and "gf (cache_store w) (get_cache_key E g) = Some (data, n)"
  shows "result E g w = (Inr data, g\<lparr>num_pages := n\<rparr>, w)"
  using assms by (simp add: result_def Let_def)

text \<open>
  Claim C8. With a cache that does not hold the key, after a successful call whose page
  count is read: without an \<open>Expires\<close> header the slice of \<open>None\<close> raises
  \<open>TypeError\<close> before \<open>cache.set\<close> is reached, so that the content of the cache is what
  it was; with a header that \<open>parsedate\<close> reads as a time tuple whose first seven fields
  make a date, the entry is stored under the key with the expiry made of these fields and
  the time zone UTC.
\<close>

theorem C8_expires_needed_to_store:
  assumes "cache g = Some co" and "contains_attr co = Some cf" and "set_attr co = Some sf"
    and "\<not> cf (cache_store w) (get_cache_key E g)"
    and "http_result E (net_log w) (requests_future g) = Inr (data, resp)"
    and "read_num_pages resp = Inr n"
  shows "(map_of (resp_headers resp) ''expires'' = None \<longrightarrow>
            result E g w =
              (Inl (TypeError ''NoneType object is not subscriptable''), g\<lparr>num_pages := n\<rparr>,
               w\<lparr>net_log := net_log w @ [requests_future g]\<rparr>)
            \<and> cache_store (snd (snd (result E g w))) = cache_store w)
       \<and> (map_of (resp_headers resp) ''expires'' = Some v \<and> parsedate E v = Some t
            \<and> take 7 t = [y, mo, d, h, mi, s, us]
            \<and> mk_datetime y mo d h mi s us UTC = Inr expires \<longrightarrow>
            expires = \<lparr>dt_year = y, dt_month = mo, dt_day = d, dt_hour = h, dt_minute = mi,
                       dt_second = s, dt_microsecond = us, dt_tzinfo = UTC\<rparr>
            \<and> result E g w =
                (Inr data, g\<lparr>num_pages := n\<rparr>,
                 w\<lparr>net_log := net_log w @ [requests_future g],
                   cache_store := sf (cache_store w) (get_cache_key E g) (data, n) expires\<rparr>))"
proof (intro conjI impI)
  assume "map_of (resp_headers resp) ''expires'' = None"
  then have e: "read_expires E resp = Inl (TypeError ''NoneType object is not subscriptable'')"
    by (simp add: read_expires_def)
  show r: "result E g w =
          (Inl (TypeError ''NoneType object is not subscriptable''), g\<lparr>num_pages := n\<rparr>,
           w\<lparr>net_log := net_log w @ [requests_future g]\<rparr>)"
    by (rule result_cache_miss_expires_fails [OF assms(1,2,4,5,6) e])
  show "cache_store (snd (snd (result E g w))) = cache_store w"
    by (simp add: r)
next
  assume h: "map_of (resp_headers resp) ''expires'' = Some v \<and> parsedate E v = Some t
            \<and> take 7 t = [y, mo, d, h, mi, s, us]
            \<and> mk_datetime y mo d h mi s us UTC = Inr expires"
  then show "expires = \<lparr>dt_year = y, dt_month = mo, dt_day = d, dt_hour = h, dt_minute = mi,
                       dt_second = s, dt_microsecond = us, dt_tzinfo = UTC\<rparr>"
    by (auto simp: mk_datetime_def split: if_splits)
  from h have e: "read_expires E resp = Inr expires"
    by (simp add: read_expires_def)
  show "result E g w =
                (Inr data, g\<lparr>num_pages := n\<rparr>,
                 w\<lparr>net_log := net_log w @ [requests_future g],
                   cache_store := sf (cache_store w) (get_cache_key E g) (data, n) expires\<rparr>)"
    by (rule result_cache_miss_stored [OF assms e])
qed

theorem C8_expires_witness:
  "cache (gen0 (Some dict_cache)) = Some dict_cache
   \<and> result (env_headers [(''x-pages'', ''3'')]) (gen0 (Some dict_cache)) (world0 [])
       = (Inl (TypeError ''NoneType object is not subscriptable''),
          (gen0 (Some dict_cache))\<lparr>num_pages := 3\<rparr>, (world0 [])\<lparr>net_log := [future0]\<rparr>)
   \<and> cache_store (snd (snd (result (env_headers [(''x-pages'', ''3'')])
                                (gen0 (Some dict_cache)) (world0 [])))) = []
   \<and> result E0 (gen0 (Some dict_cache)) (world0 [])
       = (Inr (JArray []), (gen0 (Some dict_cache))\<lparr>num_pages := 3\<rparr>,
          \<lparr>net_log = [future0],
           cache_store =
             [(get_cache_key (E0 :: dict_store env) (gen0 (Some dict_cache)), (JArray [], 3),
               \<lparr>dt_year = 2022, dt_month = 1, dt_day = 1, dt_hour = 0, dt_minute = 0,
                dt_second = 0, dt_microsecond = 0, dt_tzinfo = UTC\<rparr>)]\<rparr>)"
proof -
  let ?g = "gen0 (Some dict_cache) :: dict_store page_generator"
  let ?w = "world0 [] :: dict_store world"
  let ?cf = "\<lambda>(c :: dict_store) k. map_of c k \<noteq> None"
  let ?sf = "\<lambda>(c :: dict_store) k v e. AList.update k (v, e) c"
  let ?E = "env_headers [(''x-pages'', ''3'')] :: dict_store env"
  let ?F = "E0 :: dict_store env"
  have a: "cache ?g = Some dict_cache" by (simp add: gen0_def)
  have b: "contains_attr dict_cache = Some ?cf" by (simp add: dict_cache_def)
  have c: "set_attr dict_cache = Some ?sf" by (simp add: dict_cache_def)
  have d: "\<And>E :: dict_store env. \<not> ?cf (cache_store ?w) (get_cache_key E ?g)"
    by (simp add: world0_def)
  have e1: "http_result ?E (net_log ?w) (requests_future ?g)
            = Inr (JArray [], response_with [(''x-pages'', ''3'')] [])"
    by (simp add: env_headers_def page_payload_def page_param_def gen0_def future0_def request0_def)
  have e2: "http_result ?F (net_log ?w) (requests_future ?g) = Inr (JArray [], ok_response ''3'')"
    by (simp add: E0_def page_payload_def page_param_def gen0_def future0_def request0_def)
  have p3: "py_int ''3'' = Inr 3"
    by (simp add: py_int_def strip_def is_space_def is_digit_def digit_val_def)
  have f1: "read_num_pages (response_with [(''x-pages'', ''3'')] []) = Inr 3"
    by (simp add: read_num_pages_def response_with_def p3)
  have f2: "read_num_pages (ok_response ''3'') = Inr 3"
    by (simp add: read_num_pages_def ok_response_def p3)
  have h1: "map_of (resp_headers (response_with [(''x-pages'', ''3'')] [])) ''expires'' = None"
    by (simp add: response_with_def)
  have h2: "map_of (resp_headers (ok_response ''3'')) ''expires''
              = Some ''Sat, 01 Jan 2022 00:00:00 GMT''
            \<and> parsedate ?F ''Sat, 01 Jan 2022 00:00:00 GMT'' = Some [2022, 1, 1, 0, 0, 0, 0, 1, - 1]
            \<and> take 7 [2022, 1, 1, 0, 0, 0, 0, 1, - 1 :: int] = [2022, 1, 1, 0, 0, 0, 0]
            \<and> mk_datetime 2022 1 1 0 0 0 0 UTC
                = Inr \<lparr>dt_year = 2022, dt_month = 1, dt_day = 1, dt_hour = 0, dt_minute = 0,
                       dt_second = 0, dt_microsecond = 0, dt_tzinfo = UTC\<rparr>"
    by (simp add: ok_response_def E0_def mk_datetime_def days_in_month_def)
  show ?thesis
    using a h1 h2
      C8_expires_needed_to_store [OF a b c d e1 f1]
      C8_expires_needed_to_store [OF a b c d e2 f2,
        of "''Sat, 01 Jan 2022 00:00:00 GMT''" "[2022, 1, 1, 0, 0, 0, 0, 1, - 1]" 2022 1 1 0 0 0 0]
    by (simp add: world0_def gen0_def)
qed

text \<open>
  Claim C7. With a cache that does not hold the key, a successful call whose page count
  and \<open>Expires\<close> header are read stores the payload and the page count under the key.
  When the cache then holds the key with this entry, as a cache that keeps what it is
  given does, the request of a generator with the same key tuple returns the stored
  payload and page count, and the world is the one after the first request: there is no
  second network call.
\<close>

theorem C7_second_identical_request_served_from_cache:
  assumes "cache g = Some co" and "contains_attr co = Some cf" and "set_attr co = Some sf"
    and "get_attr co = Some gf"
    and "\<not> cf (cache_store w) (get_cache_key E g)"
    and "http_result E (net_log w) (requests_future g) = Inr (data, resp)"
    and "read_num_pages resp = Inr n"
    and "read_expires E resp = Inr expires"
    and "cf (sf (cache_store w) (get_cache_key E g) (data, n) expires) (get_cache_key E g)"
    and "gf (sf (cache_store w) (get_cache_key E g) (data, n) expires) (get_cache_key E g)
           = Some (data, n)"
    and "cache g2 = Some co" and "key_tuple_of E g2 = key_tuple_of E g"
    and "result E g w = (r, g1, w1)"
  shows "r = Inr data \<and> num_pages g1 = n
       \<and> net_log w1 = net_log w @ [requests_future g]
       \<and> cache_store w1 = sf (cache_store w) (get_cache_key E g) (data, n) expires
       \<and> result E g2 w1 = (Inr data, g2\<lparr>num_pages := n\<rparr>, w1)"
proof -
  have first: "result E g w =
           (Inr data, g\<lparr>num_pages := n\<rparr>,
            w\<lparr>net_log := net_log w @ [requests_future g],
              cache_store := sf (cache_store w) (get_cache_key E g) (data, n) expires\<rparr>)"
    by (rule result_cache_miss_stored [OF assms(1,2,3,5,6,7,8)])
  with assms(13) have r: "r = Inr data" and g1: "g1 = g\<lparr>num_pages := n\<rparr>"
    and w1: "w1 = w\<lparr>net_log := net_log w @ [requests_future g],
              cache_store := sf (cache_store w) (get_cache_key E g) (data, n) expires\<rparr>"
    by simp_all
  have key: "get_cache_key E g2 = get_cache_key E g"
    by (simp add: get_cache_key_def assms(12))
  have "result E g2 w1 = (Inr data, g2\<lparr>num_pages := n\<rparr>, w1)"
    by (rule result_cache_hit [OF assms(11) assms(2) assms(4)])
       (simp_all add: w1 key assms(9,10))
  then show ?thesis by (simp add: r g1 w1)
qed

theorem C7_cache_witness:
  "cache (gen0 (Some dict_cache)) = Some dict_cache
   \<and> result E0 (gen0 (Some dict_cache)) (world0 [])
       = (Inr (JArray []), (gen0 (Some dict_cache))\<lparr>num_pages := 3\<rparr>,
          \<lparr>net_log = [future0],
           cache_store =
             [(get_cache_key (E0 :: dict_store env) (gen0 (Some dict_cache)), (JArray [], 3),
               \<lparr>dt_year = 2022, dt_month = 1, dt_day = 1, dt_hour = 0, dt_minute = 0,
                dt_second = 0, dt_microsecond = 0, dt_tzinfo = UTC\<rparr>)]\<rparr>)
   \<and> result E0 (gen0 (Some dict_cache))
        \<lparr>net_log = [future0],
         cache_store =
           [(get_cache_key (E0 :: dict_store env) (gen0 (Some dict_cache)), (JArray [], 3),
             \<lparr>dt_year = 2022, dt_month = 1, dt_day = 1, dt_hour = 0, dt_minute = 0,
              dt_second = 0, dt_microsecond = 0, dt_tzinfo = UTC\<rparr>)]\<rparr>
       = (Inr (JArray []), (gen0 (Some dict_cache))\<lparr>num_pages := 3\<rparr>,
          \<lparr>net_log = [future0],
           cache_store =
             [(get_cache_key (E0 :: dict_store env) (gen0 (Some dict_cache)), (JArray [], 3),
               \<lparr>dt_year = 2022, dt_month = 1, dt_day = 1, dt_hour = 0, dt_minute = 0,
                dt_second = 0, dt_microsecond = 0, dt_tzinfo = UTC\<rparr>)]\<rparr>)"
proof -
  let ?g = "gen0 (Some dict_cache) :: dict_store page_generator"
  let ?w = "world0 [] :: dict_store world"
  let ?cf = "\<lambda>(c :: dict_store) k. map_of c k \<noteq> None"
  let ?sf = "\<lambda>(c :: dict_store) k v e. AList.update k (v, e) c"
  let ?gf = "\<lambda>(c :: dict_store) k. map_option fst (map_of c k)"
  let ?F = "E0 :: dict_store env"
  let ?dt = "\<lparr>dt_year = 2022, dt_month = 1, dt_day = 1, dt_hour = 0, dt_minute = 0,
               dt_second = 0, dt_microsecond = 0, dt_tzinfo = UTC\<rparr>"
  let ?w1 = "\<lparr>net_log = [future0],
              cache_store = [(get_cache_key ?F ?g, (JArray [], 3), ?dt)]\<rparr> :: dict_store world"
  have a: "cache ?g = Some dict_cache" by (simp add: gen0_def)
  have b: "contains_attr dict_cache = Some ?cf" by (simp add: dict_cache_def)
  have c: "set_attr dict_cache = Some ?sf" by (simp add: dict_cache_def)
  have c': "get_attr dict_cache = Some ?gf" by (simp add: dict_cache_def)
  have d: "\<not> ?cf (cache_store ?w) (get_cache_key ?F ?g)"
    by (simp add: world0_def)
  have e: "http_result ?F (net_log ?w) (requests_future ?g) = Inr (JArray [], ok_response ''3'')"
    by (simp add: E0_def page_payload_def page_param_def gen0_def future0_def request0_def)
  have p3: "py_int ''3'' = Inr 3"
    by (simp add: py_int_def strip_def is_space_def is_digit_def digit_val_def)
  have f: "read_num_pages (ok_response ''3'') = Inr 3"
    by (simp add: read_num_pages_def ok_response_def p3)
  have x: "read_expires ?F (ok_response ''3'') = Inr ?dt"
    by (simp add: read_expires_def ok_response_def E0_def mk_datetime_def days_in_month_def)
  have k1: "?cf (?sf (cache_store ?w) (get_cache_key ?F ?g) (JArray [], 3) ?dt) (get_cache_key ?F ?g)"
    by (simp add: world0_def)
  have k2: "?gf (?sf (cache_store ?w) (get_cache_key ?F ?g) (JArray [], 3) ?dt) (get_cache_key ?F ?g)
             = Some (JArray [], 3)"
    by (simp add: world0_def)
  have first: "result ?F ?g ?w = (Inr (JArray []), ?g\<lparr>num_pages := 3\<rparr>, ?w1)"
    using result_cache_miss_stored [OF a b c d e f x]
    by (simp add: world0_def gen0_def)
  show ?thesis
    using a first
      C7_second_identical_request_served_from_cache
        [OF a b c c' d e f x k1 k2 a refl first]
    by (simp add: world0_def)
qed

subsection \<open>The cache key\<close>

text \<open>
  The hash of an integer has the period \<open>2^61 - 1\<close>, and the page enters the key through
  it only.
\<close>

lemma int_hash_period: "0 \<le> p \<Longrightarrow> int_hash (p + (2 ^ 61 - 1)) = int_hash p"
  by (simp add: int_hash_def hash_modulus_def Let_def)

lemma key_tuple_page: "key_tuple_of E (g\<lparr>page := p\<rparr>) = key_tuple_of E (g\<lparr>page := p'\<rparr>) \<longleftrightarrow> p = p'"
  by (simp add: key_tuple_of_def Let_def)

lemma get_cache_key_unfold:
  "get_cache_key E g =
     tuple_hash E
       [str_hash E (url (request (requests_future g))),
        str_hash E (str_params E (params (request (requests_future g)))),
        str_hash E (str_auth E (auth (request (requests_future g)))),
        str_hash E (str_headers E (req_headers (request (requests_future g)))),
        str_hash E (req_method (request (requests_future g))),
        int_hash (page g)]"
  by (simp add: get_cache_key_def key_tuple_of_def py_hash_def Let_def)

text \<open>
  The keys are machine integers and the URLs are strings without bound: whatever the
  hash of strings is in this process, two URLs share a key.
\<close>

lemma url_collision:
  "\<exists>u u'. u \<noteq> u' \<and> get_cache_key E (with_url g u) = get_cache_key E (with_url g u')"
proof (rule ccontr)
  assume "\<not> ?thesis"
  then have "inj (\<lambda>u. get_cache_key E (with_url g u))"
    by (auto simp: inj_on_def)
  moreover have "finite (range (\<lambda>u. get_cache_key E (with_url g u)))"
    by (rule finite_subset [OF subset_UNIV]) simp
  ultimately have "finite (UNIV :: string set)"
    by (rule finite_imageD [rotated])
  then show False by (simp add: infinite_UNIV_listI)
qed

lemma key_tuple_url: "key_tuple_of E (with_url g u) = key_tuple_of E (with_url g u') \<longleftrightarrow> u = u'"
  by (simp add: key_tuple_of_def with_url_def Let_def)

text \<open>
  Claim C4, as the code has it. In one interpreter process, the key is the hash of the
  tuple of the URL, the texts of the parameters, the authentication, the headers and the
  method, and the page: generators with the same tuple have the same key. The converse
  does not hold. The page is hashed modulo \<open>2^61 - 1\<close>, so that for every request and
  every page from 0 on the tuple with this page and the tuple with the page
  \<open>2^61 - 1\<close> further on differ and have the same key; and for every request there are
  two URLs whose tuples differ and have the same key.
\<close>

theorem C4_cache_key_of_tuple:
  "(key_tuple_of E g = key_tuple_of E g' \<longrightarrow> get_cache_key E g = get_cache_key E g')
   \<and> get_cache_key E g =
       tuple_hash E
         [str_hash E (url (request (requests_future g))),
          str_hash E (str_params E (params (request (requests_future g)))),
          str_hash E (str_auth E (auth (request (requests_future g)))),
          str_hash E (str_headers E (req_headers (request (requests_future g)))),
          str_hash E (req_method (request (requests_future g))),
          int_hash (page g)]
   \<and> (0 \<le> p \<longrightarrow>
         key_tuple_of E (g\<lparr>page := p + (2 ^ 61 - 1)\<rparr>) \<noteq> key_tuple_of E (g\<lparr>page := p\<rparr>)
         \<and> get_cache_key E (g\<lparr>page := p + (2 ^ 61 - 1)\<rparr>) = get_cache_key E (g\<lparr>page := p\<rparr>))
   \<and> (\<exists>u u'. key_tuple_of E (with_url g u) \<noteq> key_tuple_of E (with_url g u')
          \<and> get_cache_key E (with_url g u) = get_cache_key E (with_url g u'))"
proof (intro conjI impI)
  assume "key_tuple_of E g = key_tuple_of E g'"
  then show "get_cache_key E g = get_cache_key E g'"
    by (simp add: get_cache_key_def)
next
  show "get_cache_key E g =
       tuple_hash E
         [str_hash E (url (request (requests_future g))),
          str_hash E (str_params E (params (request (requests_future g)))),
          str_hash E (str_auth E (auth (request (requests_future g)))),
          str_hash E (str_headers E (req_headers (request (requests_future g)))),
          str_hash E (req_method (request (requests_future g))),
          int_hash (page g)]"
    by (rule get_cache_key_unfold)
next
  assume "0 \<le> p"
  show "key_tuple_of E (g\<lparr>page := p + (2 ^ 61 - 1)\<rparr>) \<noteq> key_tuple_of E (g\<lparr>page := p\<rparr>)"
    by (simp add: key_tuple_page)
  show "get_cache_key E (g\<lparr>page := p + (2 ^ 61 - 1)\<rparr>) = get_cache_key E (g\<lparr>page := p\<rparr>)"
  proof -
    have "int_hash (p + (2 ^ 61 - 1)) = int_hash p"
      using \<open>0 \<le> p\<close> by (rule int_hash_period)
    then show ?thesis by (simp add: get_cache_key_unfold)
  qed
next
  from url_collision [of E g] obtain u u' where
    "u \<noteq> u'" and "get_cache_key E (with_url g u) = get_cache_key E (with_url g u')"
    by blast
  then have "key_tuple_of E (with_url g u) \<noteq> key_tuple_of E (with_url g u')
          \<and> get_cache_key E (with_url g u) = get_cache_key E (with_url g u')"
    by (simp add: key_tuple_url)
  then show "\<exists>u u'. key_tuple_of E (with_url g u) \<noteq> key_tuple_of E (with_url g u')
          \<and> get_cache_key E (with_url g u) = get_cache_key E (with_url g u')"
    by blast
qed

theorem C4_cache_key_witness:
  "key_tuple_of (E0 :: unit env) (gen0 None)
     = key_tuple_of (E0 :: unit env) ((gen0 None)\<lparr>num_pages := 7, stop := True\<rparr>)
   \<and> get_cache_key (E0 :: unit env) (gen0 None)
     = get_cache_key (E0 :: unit env) ((gen0 None)\<lparr>num_pages := 7, stop := True\<rparr>)
   \<and> get_cache_key (E0 :: unit env) (gen0 None) = 16404622781
   \<and> get_cache_key (E0 :: unit env) ((gen0 None)\<lparr>page := 2\<rparr>) = 16404622782
   \<and> (0 :: int) \<le> 1
   \<and> get_cache_key (E0 :: unit env) ((gen0 None)\<lparr>page := 1 + (2 ^ 61 - 1)\<rparr>) = 16404622781"
proof -
  have a: "key_tuple_of (E0 :: unit env) (gen0 None)
     = key_tuple_of (E0 :: unit env) ((gen0 None)\<lparr>num_pages := 7, stop := True\<rparr>)"
    by (simp add: key_tuple_of_def)
  have h1: "int_hash 1 = 1" and h2: "int_hash 2 = 2"
    by (simp_all add: int_hash_def hash_modulus_def)
  note at1 = C4_cache_key_of_tuple
    [of "E0 :: unit env" "gen0 None" "(gen0 None)\<lparr>num_pages := 7, stop := True\<rparr>" 1]
  note at2 = C4_cache_key_of_tuple
    [of "E0 :: unit env" "(gen0 None)\<lparr>page := 2\<rparr>" "(gen0 None)\<lparr>page := 2\<rparr>" 1]
  have k1: "get_cache_key (E0 :: unit env) (gen0 None) = 16404622781"
    unfolding conjunct1 [OF conjunct2 [OF at1]]
    by (simp add: E0_def gen0_def future0_def request0_def h1)
  have k2: "get_cache_key (E0 :: unit env) ((gen0 None)\<lparr>page := 2\<rparr>) = 16404622782"
    unfolding conjunct1 [OF conjunct2 [OF at2]]
    by (simp add: E0_def gen0_def future0_def request0_def h2)
  have g1: "(gen0 None :: unit page_generator)\<lparr>page := 1\<rparr> = gen0 None"
    by (simp add: gen0_def)
  have c3: "get_cache_key (E0 :: unit env) ((gen0 None)\<lparr>page := 1 + (2 ^ 61 - 1)\<rparr>)
              = get_cache_key (E0 :: unit env) ((gen0 None)\<lparr>page := 1\<rparr>)"
    using conjunct1 [OF conjunct2 [OF conjunct2 [OF at1]]] by simp
  show ?thesis
  proof (intro conjI)
    show "key_tuple_of (E0 :: unit env) (gen0 None)
            = key_tuple_of (E0 :: unit env) ((gen0 None)\<lparr>num_pages := 7, stop := True\<rparr>)"
      by (rule a)
    show "get_cache_key (E0 :: unit env) (gen0 None)
            = get_cache_key (E0 :: unit env) ((gen0 None)\<lparr>num_pages := 7, stop := True\<rparr>)"
      using conjunct1 [OF at1] a by (rule mp)
    show "get_cache_key (E0 :: unit env) (gen0 None) = 16404622781" by (rule k1)
    show "get_cache_key (E0 :: unit env) ((gen0 None)\<lparr>page := 2\<rparr>) = 16404622782" by (rule k2)
    show "(0 :: int) \<le> 1" by simp
    show "get_cache_key (E0 :: unit env) ((gen0 None)\<lparr>page := 1 + (2 ^ 61 - 1)\<rparr>) = 16404622781"
      using c3 k1 by (simp only: g1)
  qed
qed

text \<open>
  Claim C4 as stated, that different tuples always have different keys, fails: the
  tuples of one request with the pages 1 and \<open>2^61\<close> differ and have the same key.
\<close>

theorem C4_distinct_tuples_collide_counterexample:
  "key_tuple_of (E0 :: unit env) (gen0 None)
     \<noteq> key_tuple_of (E0 :: unit env) ((gen0 None)\<lparr>page := 2305843009213693952\<rparr>)
   \<and> get_cache_key (E0 :: unit env) (gen0 None)
     = get_cache_key (E0 :: unit env) ((gen0 None)\<lparr>page := 2305843009213693952\<rparr>)"
  by (simp add: get_cache_key_def py_hash_def key_tuple_of_def gen0_def int_hash_def
      hash_modulus_def Let_def)

subsection \<open>Iterating a paginated operation\<close>








end
